theory Spec2Isabelle
  imports Complex_Main "HOL-Library.Sublist"
begin

section \<open>Text\<close>

text \<open>
  A Python \<open>str\<close> is modelled as a \<^typ>\<open>string\<close> whose characters are the code points
  below 256. Python floats are idealised as \<^typ>\<open>real\<close>: \<open>0.7\<close> is the real 7/10, and
  there is no NaN and no rounding.

  \<open>str.lower()\<close> on these code points maps \<open>A..Z\<close> and the Latin-1 capitals
  (192..222 except the multiplication sign 215) 32 places up and leaves the rest.
\<close>

definition lower_char :: "char \<Rightarrow> char" where
  "lower_char c =
     (let n = (of_char c :: nat)
      in if (65 \<le> n \<and> n \<le> 90) \<or> (192 \<le> n \<and> n \<le> 222 \<and> n \<noteq> 215)
         then char_of (n + 32) else c)"

definition lower :: "string \<Rightarrow> string" where
  "lower s = map lower_char s"

text \<open>Python's \<open>k in t\<close> on strings is \<^term>\<open>sublist k t\<close>: \<open>k\<close> occurs contiguously in \<open>t\<close>.\<close>

text \<open>\<open>sep.join(xs)\<close>\<close>

fun join :: "string \<Rightarrow> string list \<Rightarrow> string" where
  "join sep [] = []"
| "join sep [x] = x"
| "join sep (x # y # ys) = x @ sep @ join sep (y # ys)"

section \<open>Escalation engine (app/services/escalation\_engine.py)\<close>

text \<open>The dict \<open>SERIOUS_KEYWORDS\<close>, in insertion order (the order \<open>.items()\<close> iterates in).\<close>

definition SERIOUS_KEYWORDS :: "(string \<times> int) list" where
  "SERIOUS_KEYWORDS =
    [(''death'', 10),
     (''died'', 10),
     (''fatal'', 10),
     (''life-threatening'', 9),
     (''life threatening'', 9),
     (''hospitalization'', 8),
     (''hospitalisation'', 8),
     (''hospitalized'', 8),
     (''hospitalised'', 8),
     (''inpatient'', 7),
     (''disability'', 8),
     (''incapacity'', 8),
     (''congenital anomaly'', 8),
     (''birth defect'', 8),
     (''cancer'', 7),
     (''overdose'', 7),
     (''suicide'', 9),
     (''suicidal'', 8),
     (''cardiac arrest'', 9),
     (''respiratory failure'', 9),
     (''coma'', 9),
     (''seizure'', 7),
     (''anaphylaxis'', 8),
     (''anaphylactic'', 8),
     (''stroke'', 8),
     (''myocardial infarction'', 8),
     (''heart attack'', 8),
     (''renal failure'', 8),
     (''liver failure'', 8),
     (''hepatic failure'', 8),
     (''sepsis'', 8),
     (''shock'', 7),
     (''transplant'', 7),
     (''surgery required'', 7),
     (''surgical intervention'', 7),
     (''icu'', 8),
     (''intensive care'', 8),
     (''ventilator'', 8),
     (''intubation'', 8),
     (''resuscitation'', 9)]"

definition ESCALATION_THRESHOLD :: real where
  "ESCALATION_THRESHOLD = 6 / 10"

definition KEYWORD_WEIGHT :: real where
  "KEYWORD_WEIGHT = 3 / 10"

text \<open>
  The explanation is kept as the list \<open>parts\<close> that \<open>generate_explanation\<close> builds
  before it joins them with newlines, one constructor for each template line, holding the
  values the template interpolates. The rendering of a line (its fixed wording and the
  \<open>.1%\<close> number format) is not modelled.
\<close>

datatype explanation_part =
    EscalationRequired string
  | NoEscalationNeeded string
  | ReasoningHeader
  | MLClassificationProbability real
  | RegulatoryKeywordsDetected string
  | KeywordSeverityScore real
  | NoRegulatoryKeywords
  | FinalCombinedScore real
  | ActionSafetySignal
  | ActionManualReview

record EscalationResult =
  should_escalate :: bool
  final_score :: real
  ml_probability :: real
  keyword_score :: real
  triggered_keywords :: "string list"
  explanation :: "explanation_part list"
  risk_level :: string

text \<open>
  The classifier's result dict and the extractor's entities dict: a key that may be
  missing is an \<open>option\<close> field, \<open>d.get(k, default)\<close> is a case on it.
\<close>

record ml_result =
  prediction :: "string option"
  serious_probability :: "real option"
  non_serious_probability :: "real option"
  confidence :: "real option"
  reason :: "string option"

record entities =
  drug :: "string option"
  symptoms :: "string list option"
  extraction_method :: "string option"

text \<open>Truth value of a dict: it has at least one key.\<close>

definition entities_nonempty :: "entities \<Rightarrow> bool" where
  "entities_nonempty e \<longleftrightarrow> drug e \<noteq> None \<or> symptoms e \<noteq> None \<or> extraction_method e \<noteq> None"

text \<open>
  The loop of \<open>calculate_keyword_score\<close> over the table: the state is the list
  \<open>triggered\<close> and \<open>max_score\<close>.
\<close>

fun keyword_loop :: "(string \<times> int) list \<Rightarrow> string \<Rightarrow> string list \<times> int \<Rightarrow> string list \<times> int" where
  "keyword_loop [] text_lower st = st"
| "keyword_loop ((keyword, score) # rest) text_lower (triggered, max_score) =
     (if sublist keyword text_lower
      then keyword_loop rest text_lower (triggered @ [keyword], max max_score score)
      else keyword_loop rest text_lower (triggered, max_score))"

definition calculate_keyword_score :: "string \<Rightarrow> real \<times> string list" where
  "calculate_keyword_score text =
     (let text_lower = lower text;
          (triggered, max_score) = keyword_loop SERIOUS_KEYWORDS text_lower ([], 0);
          normalized_score = (if max_score > 0 then real_of_int max_score / 10 else 0)
      in (normalized_score, triggered))"

definition determine_risk_level :: "real \<Rightarrow> string" where
  "determine_risk_level score =
     (if score \<ge> 85 / 100 then ''CRITICAL''
      else if score \<ge> 7 / 10 then ''HIGH''
      else if score \<ge> 5 / 10 then ''MEDIUM''
      else ''LOW'')"

definition generate_explanation :: "EscalationResult \<Rightarrow> explanation_part list" where
  "generate_explanation result =
     [if should_escalate result then EscalationRequired (risk_level result)
      else NoEscalationNeeded (risk_level result)]
     @ [ReasoningHeader]
     @ [MLClassificationProbability (ml_probability result)]
     @ (if triggered_keywords result \<noteq> []
        then [RegulatoryKeywordsDetected (join '', '' (triggered_keywords result)),
              KeywordSeverityScore (keyword_score result)]
        else [NoRegulatoryKeywords])
     @ [FinalCombinedScore (final_score result)]
     @ (if should_escalate result
        then (if triggered_keywords result \<noteq> [] then [ActionSafetySignal]
              else [ActionManualReview])
        else [])"

definition combined_text :: "string \<Rightarrow> string \<Rightarrow> entities option \<Rightarrow> string" where
  "combined_text drugname adverse_event ents =
     (let text = drugname @ '' '' @ adverse_event
      in case ents of
           None \<Rightarrow> text
         | Some e \<Rightarrow>
             if entities_nonempty e
             then text @ '' '' @ join '' '' (case symptoms e of None \<Rightarrow> [] | Some ss \<Rightarrow> ss)
             else text)"

definition evaluate_escalation ::
  "ml_result \<Rightarrow> string \<Rightarrow> string \<Rightarrow> entities option \<Rightarrow> EscalationResult" where
  "evaluate_escalation ml_prediction drugname adverse_event ents =
     (let ml_prob = (case serious_probability ml_prediction of None \<Rightarrow> 5 / 10 | Some p \<Rightarrow> p);
          (kw_score, triggered) = calculate_keyword_score (combined_text drugname adverse_event ents);
          final = (if kw_score \<ge> 8 / 10 then max ml_prob kw_score
                   else (1 - KEYWORD_WEIGHT) * ml_prob + KEYWORD_WEIGHT * kw_score);
          escalate = (final \<ge> ESCALATION_THRESHOLD \<or> kw_score \<ge> 8 / 10);
          result = \<lparr>should_escalate = escalate,
                    final_score = final,
                    ml_probability = ml_prob,
                    keyword_score = kw_score,
                    triggered_keywords = triggered,
                    explanation = [],
                    risk_level = determine_risk_level final\<rparr>
      in result\<lparr>explanation := generate_explanation result\<rparr>)"

section \<open>Audit database (app/database/db.py)\<close>

text \<open>
  The table \<open>audit_log\<close>. A nullable column is an \<open>option\<close> field (\<open>None\<close> is SQL NULL);
  the four \<open>NOT NULL\<close> columns and the key are not. The two TEXT columns that hold
  \<open>json.dumps\<close> of a list of strings are modelled by the list they encode.
  The record \<open>audit_columns\<close> has the thirteen columns that the INSERT of
  \<open>log_processing\<close> names; a stored row adds \<open>id\<close> and \<open>timestamp\<close>, which that INSERT
  does not name.
\<close>

record audit_columns =
  col_report_id :: string
  col_drugname :: string
  col_adverse_event :: string
  col_ml_prediction :: "string option"
  col_ml_probability :: "real option"
  col_extracted_drug :: "string option"
  col_extracted_symptoms :: "string list option"
  col_escalation_decision :: "string option"
  col_risk_level :: "string option"
  col_final_score :: "real option"
  col_triggered_keywords :: "string list option"
  col_explanation :: "explanation_part list option"
  col_processing_time_ms :: "real option"

record audit_row = audit_columns +
  col_id :: nat
  col_timestamp :: string

text \<open>
  The state of the table: its rows in rowid order, the AUTOINCREMENT counter, and the one
  part of its schema that decides whether the INSERT can succeed, the DEFAULT of the
  \<open>timestamp\<close> column. \<open>init_database\<close> declares \<open>timestamp TEXT NOT NULL\<close> with no
  DEFAULT (\<open>timestamp_default = None\<close>), but it is \<open>CREATE TABLE IF NOT EXISTS\<close>: a table
  that the database file already has is kept as it is (the backfill service reads such
  historical rows), so the DEFAULT belongs to the state. \<open>Some ts\<close> is the value that the
  DEFAULT gives at the moment of the insert.

  The database is \<open>None\<close> while the file has no \<open>audit_log\<close> table. Failures of the
  connection itself (file permissions, lock timeouts) are not modelled.
\<close>

record audit_table =
  timestamp_default :: "string option"
  table_rows :: "audit_row list"
  table_seq :: nat

type_synonym database = "audit_table option"

datatype db_error = OperationalError | IntegrityError

fun init_database :: "database \<Rightarrow> database" where
  "init_database None = Some \<lparr>timestamp_default = None, table_rows = [], table_seq = 0\<rparr>"
| "init_database (Some t) = Some t"

text \<open>
  \<open>INSERT INTO audit_log (report_id, ..., processing_time_ms) VALUES (...)\<close> and the
  commit. The \<open>timestamp\<close> column takes its DEFAULT; where it has none the value is NULL and
  the \<open>NOT NULL\<close> constraint fails (sqlite3.IntegrityError). A missing table is
  sqlite3.OperationalError.
\<close>

definition insert_audit_log :: "audit_columns \<Rightarrow> database \<Rightarrow> db_error + database" where
  "insert_audit_log v db =
     (case db of
        None \<Rightarrow> Inl OperationalError
      | Some t \<Rightarrow>
          (case timestamp_default t of
             None \<Rightarrow> Inl IntegrityError
           | Some ts \<Rightarrow>
               Inr (Some (t\<lparr>table_rows := table_rows t @
                              [audit_columns.extend v
                                 (audit_row.fields (Suc (table_seq t)) ts)],
                            table_seq := Suc (table_seq t)\<rparr>))))"

text \<open>\<open>SELECT * FROM audit_log WHERE report_id = ?\<close> followed by \<open>fetchone()\<close>.\<close>

definition select_by_report_id :: "string \<Rightarrow> database \<Rightarrow> db_error + audit_row option" where
  "select_by_report_id rid db =
     (case db of
        None \<Rightarrow> Inl OperationalError
      | Some t \<Rightarrow> Inr (find (\<lambda>r. col_report_id r = rid) (table_rows t)))"

section \<open>Vector service (app/services/vector\_service.py)\<close>

text \<open>
  The metadata dict of an index entry; \<open>symptoms\<close> holds JSON text, which is either the
  encoding of a list of strings or text that \<open>json.loads\<close> rejects.
\<close>

datatype json_text = JsonList "string list" | JsonMalformed

record metadata =
  md_report_id :: "string option"
  md_drugname :: "string option"
  md_risk_level :: "string option"
  md_escalation_decision :: "string option"
  md_ml_probability :: "real option"
  md_timestamp :: "string option"
  md_symptoms :: "json_text option"

record index_entry =
  entry_id :: string
  entry_embedding :: "real list"
  entry_document :: string
  entry_metadata :: metadata

text \<open>
  The two lazily initialised backends and what they can do: the sentence-transformer
  (\<open>None\<close>: it cannot be loaded) and the Chroma collection (\<open>None\<close>: the client or the
  collection cannot be reached), with the distance Chroma ranks by.
\<close>

record vector_store =
  embedding_model :: "(string \<Rightarrow> real list) option"
  collection :: "index_entry list option"
  distance :: "real list \<Rightarrow> real list \<Rightarrow> real"

record hit =
  hit_id :: string
  hit_metadata :: metadata
  hit_distance :: real
  hit_document :: string

record similar_event =
  se_report_id :: string
  se_drugname :: string
  se_risk_level :: string
  se_timestamp :: string
  se_ml_probability :: real
  se_all_symptoms :: "string list"
  se_matched_symptoms :: "string list"
  se_vector_distance :: real
  se_canonical_text :: string

definition newline :: string where
  "newline = [CHR 0x0A]"

definition build_canonical_embedding_text ::
  "string \<Rightarrow> string \<Rightarrow> string \<Rightarrow> string \<Rightarrow> string list option \<Rightarrow> string" where
  "build_canonical_embedding_text drugname adverse_event risk escalation_decision syms =
     (let symptoms_text =
            (case syms of
               None \<Rightarrow> ''None extracted''
             | Some ss \<Rightarrow> if ss \<noteq> [] then join '', '' ss else ''None extracted'')
      in ''Drug: '' @ drugname @ newline
         @ ''Event: '' @ adverse_event @ newline
         @ ''Symptoms: '' @ symptoms_text @ newline
         @ ''Risk: '' @ risk @ newline
         @ ''Decision: '' @ escalation_decision)"

datatype vector_error = BackendError | ValueError

text \<open>
  \<open>collection.upsert\<close> of one entry: replace the entry with this id, or add it. Chroma
  rejects the empty string as an id (ValueError) and stores nothing.
\<close>

definition upsert :: "index_entry \<Rightarrow> index_entry list \<Rightarrow> vector_error + index_entry list" where
  "upsert e es =
     (if entry_id e = [] then Inl ValueError
      else if entry_id e \<in> set (map entry_id es)
      then Inr (map (\<lambda>x. if entry_id x = entry_id e then e else x) es)
      else Inr (es @ [e]))"

text \<open>
  \<open>index_audit_event\<close>: every failure inside is caught there and becomes the result
  \<open>False\<close>. The argument \<open>now\<close> is the reading of \<open>datetime.utcnow().isoformat()\<close>.
\<close>

definition index_audit_event ::
  "vector_store \<Rightarrow> string \<Rightarrow> string \<Rightarrow> string \<Rightarrow> string \<Rightarrow> string \<Rightarrow> string list option
     \<Rightarrow> real \<Rightarrow> string option \<Rightarrow> string \<Rightarrow> bool \<times> vector_store" where
  "index_audit_event vs report_id drugname adverse_event risk escalation_decision syms
       ml_prob timestamp now =
     (let syms_or_empty = (case syms of None \<Rightarrow> [] | Some ss \<Rightarrow> ss);
          embedding_text = build_canonical_embedding_text drugname adverse_event risk
                             escalation_decision (Some syms_or_empty)
      in case embedding_model vs of
           None \<Rightarrow> (False, vs)
         | Some encode \<Rightarrow>
             (let embedding = encode embedding_text;
                  md = \<lparr>md_report_id = Some report_id,
                        md_drugname = Some drugname,
                        md_risk_level = Some risk,
                        md_escalation_decision = Some escalation_decision,
                        md_ml_probability = Some ml_prob,
                        md_timestamp = Some (case timestamp of
                                               None \<Rightarrow> now
                                             | Some ts \<Rightarrow> if ts \<noteq> [] then ts else now),
                        md_symptoms = Some (JsonList syms_or_empty)\<rparr>
              in case collection vs of
                   None \<Rightarrow> (False, vs)
                 | Some es \<Rightarrow>
                     (case upsert \<lparr>entry_id = report_id,
                                   entry_embedding = embedding,
                                   entry_document = embedding_text,
                                   entry_metadata = md\<rparr> es of
                        Inl err \<Rightarrow> (False, vs)
                      | Inr es' \<Rightarrow> (True, vs\<lparr>collection := Some es'\<rparr>))))"

text \<open>
  \<open>collection.query(query_embeddings, n_results, where)\<close>, idealised as exact
  nearest-neighbour search: the entries that pass the filter, nearest first, at most
  \<open>n_results\<close> of them. Chroma rejects an \<open>n_results\<close> that is not positive.
\<close>

definition collection_query ::
  "(real list \<Rightarrow> real list \<Rightarrow> real) \<Rightarrow> index_entry list \<Rightarrow> real list \<Rightarrow> int \<Rightarrow> string option
     \<Rightarrow> vector_error + hit list" where
  "collection_query metric es query_embedding n_results where_decision =
     (if n_results \<le> 0 then Inl ValueError
      else
        let passing = (case where_decision of
                         None \<Rightarrow> es
                       | Some d \<Rightarrow> filter (\<lambda>e. md_escalation_decision (entry_metadata e) = Some d) es);
            ranked = sort_key (\<lambda>e. metric query_embedding (entry_embedding e)) passing
        in Inr (map (\<lambda>e. \<lparr>hit_id = entry_id e,
                           hit_metadata = entry_metadata e,
                           hit_distance = metric query_embedding (entry_embedding e),
                           hit_document = entry_document e\<rparr>)
                  (take (nat n_results) ranked)))"

text \<open>The guard \<open>if current_report_id and report_id == current_report_id: continue\<close>.\<close>

definition is_current :: "string option \<Rightarrow> string \<Rightarrow> bool" where
  "is_current current_report_id report_id =
     (case current_report_id of
        None \<Rightarrow> False
      | Some c \<Rightarrow> c \<noteq> [] \<and> report_id = c)"

definition make_similar_event :: "string list option \<Rightarrow> hit \<Rightarrow> similar_event" where
  "make_similar_event query_symptoms h =
     (let md = hit_metadata h;
          syms = (case md_symptoms md of
                    None \<Rightarrow> []
                  | Some (JsonList ss) \<Rightarrow> ss
                  | Some JsonMalformed \<Rightarrow> []);
          qs = map lower (case query_symptoms of None \<Rightarrow> [] | Some q \<Rightarrow> q);
          matched_symptoms = filter (\<lambda>s. lower s \<in> set qs) syms
      in \<lparr>se_report_id = hit_id h,
          se_drugname = (case md_drugname md of None \<Rightarrow> [] | Some d \<Rightarrow> d),
          se_risk_level = (case md_risk_level md of None \<Rightarrow> ''UNKNOWN'' | Some r \<Rightarrow> r),
          se_timestamp = (case md_timestamp md of None \<Rightarrow> [] | Some t \<Rightarrow> t),
          se_ml_probability = (case md_ml_probability md of None \<Rightarrow> 0 | Some p \<Rightarrow> p),
          se_all_symptoms = syms,
          se_matched_symptoms = matched_symptoms,
          se_vector_distance = hit_distance h,
          se_canonical_text = hit_document h\<rparr>)"

text \<open>The loop over the hits, with the list \<open>similar_events\<close> as its state.\<close>

fun collect_similar ::
  "string option \<Rightarrow> string list option \<Rightarrow> int \<Rightarrow> hit list \<Rightarrow> similar_event list
     \<Rightarrow> similar_event list" where
  "collect_similar current_report_id query_symptoms top_k [] similar_events = similar_events"
| "collect_similar current_report_id query_symptoms top_k (h # hs) similar_events =
     (if is_current current_report_id (hit_id h)
      then collect_similar current_report_id query_symptoms top_k hs similar_events
      else
        let similar_events' = similar_events @ [make_similar_event query_symptoms h]
        in if int (length similar_events') \<ge> top_k then similar_events'
           else collect_similar current_report_id query_symptoms top_k hs similar_events')"

definition search_similar_events ::
  "vector_store \<Rightarrow> string \<Rightarrow> string \<Rightarrow> string list option \<Rightarrow> string option \<Rightarrow> string option
     \<Rightarrow> int \<Rightarrow> bool \<Rightarrow> similar_event list" where
  "search_similar_events vs query_drugname query_event query_symptoms query_risk_level
       current_report_id top_k escalated_only =
     (let query_text =
            build_canonical_embedding_text query_drugname query_event
              (case query_risk_level of
                 None \<Rightarrow> ''UNKNOWN''
               | Some r \<Rightarrow> if r \<noteq> [] then r else ''UNKNOWN'')
              ''QUERY'' query_symptoms
      in case embedding_model vs of
           None \<Rightarrow> []
         | Some encode \<Rightarrow>
             (case collection vs of
                None \<Rightarrow> []
              | Some es \<Rightarrow>
                  (case collection_query (distance vs) es (encode query_text) (top_k + 10)
                          (if escalated_only then Some ''ESCALATE'' else None) of
                     Inl err \<Rightarrow> []
                   | Inr hits \<Rightarrow> collect_similar current_report_id query_symptoms top_k hits [])))"

section \<open>Audit logger (app/services/audit\_logger.py)\<close>

definition decision_text :: "bool \<Rightarrow> string" where
  "decision_text escalate = (if escalate then ''ESCALATE'' else ''NO_ESCALATE'')"

definition audit_values ::
  "string \<Rightarrow> string \<Rightarrow> string \<Rightarrow> ml_result \<Rightarrow> entities \<Rightarrow> EscalationResult \<Rightarrow> real
     \<Rightarrow> audit_columns" where
  "audit_values report_id drugname adverse_event ml_prediction ents escalation_result
       processing_time_ms =
     \<lparr>col_report_id = report_id,
      col_drugname = drugname,
      col_adverse_event = adverse_event,
      col_ml_prediction = Some (case prediction ml_prediction of None \<Rightarrow> [] | Some p \<Rightarrow> p),
      col_ml_probability = Some (case serious_probability ml_prediction of None \<Rightarrow> 0 | Some p \<Rightarrow> p),
      col_extracted_drug = Some (case drug ents of None \<Rightarrow> [] | Some d \<Rightarrow> d),
      col_extracted_symptoms = Some (case symptoms ents of None \<Rightarrow> [] | Some ss \<Rightarrow> ss),
      col_escalation_decision = Some (decision_text (should_escalate escalation_result)),
      col_risk_level = Some (risk_level escalation_result),
      col_final_score = Some (final_score escalation_result),
      col_triggered_keywords = Some (triggered_keywords escalation_result),
      col_explanation = Some (explanation escalation_result),
      col_processing_time_ms = Some processing_time_ms\<rparr>"

text \<open>
  \<open>log_processing\<close> returns its boolean and leaves the two stores changed. The outer
  \<open>try\<close> turns a failed insert into \<open>False\<close>; the result of \<open>index_audit_event\<close> is not
  looked at.
\<close>

definition log_processing ::
  "database \<Rightarrow> vector_store \<Rightarrow> string \<Rightarrow> string \<Rightarrow> string \<Rightarrow> ml_result \<Rightarrow> entities
     \<Rightarrow> EscalationResult \<Rightarrow> real \<Rightarrow> string \<Rightarrow> bool \<times> database \<times> vector_store" where
  "log_processing db vs report_id drugname adverse_event ml_prediction ents escalation_result
       processing_time_ms now =
     (case insert_audit_log
             (audit_values report_id drugname adverse_event ml_prediction ents
                escalation_result processing_time_ms) db of
        Inl err \<Rightarrow> (False, db, vs)
      | Inr db' \<Rightarrow>
          (let (indexed, vs') =
                 index_audit_event vs report_id drugname adverse_event
                   (risk_level escalation_result)
                   (decision_text (should_escalate escalation_result))
                   (Some (case symptoms ents of None \<Rightarrow> [] | Some ss \<Rightarrow> ss))
                   (case serious_probability ml_prediction of None \<Rightarrow> 0 | Some p \<Rightarrow> p)
                   (Some now) now
           in (True, db', vs')))"

definition get_audit_by_report_id :: "database \<Rightarrow> string \<Rightarrow> db_error + audit_row option" where
  "get_audit_by_report_id db report_id = select_by_report_id report_id db"

record similar_event_dict =
  sd_report_id :: "string option"
  sd_drugname :: "string option"
  sd_adverse_event :: string
  sd_timestamp :: "string option"
  sd_risk_level :: "string option"
  sd_ml_probability :: "real option"
  sd_final_score :: "real option"
  sd_matched_symptoms :: "string list"

definition get_similar_serious_events_vector ::
  "vector_store \<Rightarrow> string \<Rightarrow> string \<Rightarrow> string list \<Rightarrow> string \<Rightarrow> string \<Rightarrow> int
     \<Rightarrow> similar_event_dict list" where
  "get_similar_serious_events_vector vs drugname adverse_event current_symptoms risk
       current_report_id limit =
     map (\<lambda>row. \<lparr>sd_report_id = Some (se_report_id row),
                  sd_drugname = Some (se_drugname row),
                  sd_adverse_event = se_canonical_text row,
                  sd_timestamp = Some (se_timestamp row),
                  sd_risk_level = Some (se_risk_level row),
                  sd_ml_probability = Some (se_ml_probability row),
                  sd_final_score = None,
                  sd_matched_symptoms = se_matched_symptoms row\<rparr>)
       (search_similar_events vs drugname adverse_event (Some current_symptoms) (Some risk)
          (Some current_report_id) limit True)"

section \<open>Classifier (app/services/classifier.py)\<close>

text \<open>The classifier module's own list \<open>SERIOUS_KEYWORDS\<close>.\<close>

definition classifier_SERIOUS_KEYWORDS :: "string list" where
  "classifier_SERIOUS_KEYWORDS =
    [''hospital'', ''hospitalized'', ''hospitalised'', ''admitted'', ''admission'',
     ''icu'', ''intensive care'', ''critical care'', ''ccu'',
     ''death'', ''died'', ''fatal'', ''expired'', ''mortality'',
     ''life threatening'', ''life-threatening'',
     ''cardiac arrest'', ''respiratory arrest'',
     ''shock'', ''septic shock'', ''anaphylaxis'',
     ''gastrointestinal bleeding'', ''gi bleeding'', ''gi bleed'',
     ''melena'', ''black tarry stools'',
     ''hematemesis'', ''vomiting blood'',
     ''hemorrhage'', ''haemorrhage'', ''bleeding requiring transfusion'',
     ''blood transfusion'', ''transfusion'',
     ''hematuria'', ''blood in urine'',
     ''hemoptysis'', ''coughing up blood'',
     ''rectal bleeding'',
     ''intracranial hemorrhage'', ''intracranial haemorrhage'',
     ''brain bleed'', ''cerebral hemorrhage'',
     ''stroke'', ''cva'', ''subarachnoid hemorrhage'',
     ''myocardial infarction'', ''heart attack'',
     ''ventricular fibrillation'', ''ventricular tachycardia'',
     ''cardiac arrhythmia'', ''asystole'',
     ''acute renal failure'', ''kidney failure'',
     ''acute liver failure'', ''hepatic failure'',
     ''respiratory failure'', ''ventilator'', ''intubated'',
     ''anaphylactic shock'', ''stevens-johnson syndrome'', ''sjs'',
     ''toxic epidermal necrolysis'', ''ten'',
     ''congenital anomaly'', ''birth defect'', ''teratogenic'',
     ''permanent disability'', ''paralysis'', ''blindness'', ''coma'',
     ''emergency surgery'', ''urgent surgery'',
     ''intubation'', ''mechanical ventilation'',
     ''severe anemia'', ''hemoglobin drop'',
     ''coagulopathy'', ''overdose'', ''toxicity'']"

definition SERIOUS_THRESHOLD :: real where
  "SERIOUS_THRESHOLD = 30 / 100"

definition rule_based_serious_override :: "string \<Rightarrow> bool" where
  "rule_based_serious_override text =
     list_ex (\<lambda>k. sublist k (lower text)) classifier_SERIOUS_KEYWORDS"

text \<open>
  The trained model (its \<open>classes_\<close> and \<open>predict_proba\<close> on one feature vector) and the
  vectorizer (\<open>transform\<close> on one text). The globals \<open>_model\<close> and \<open>_vectorizer\<close> are the
  classifier state; the two pickle files are \<open>None\<close> when they do not exist.
\<close>

record trained_model =
  classes :: "string list"
  predict_proba :: "real list \<Rightarrow> real list"

record classifier_state =
  loaded_model :: "trained_model option"
  loaded_vectorizer :: "(string \<Rightarrow> real list) option"

record model_files =
  model_pkl :: "trained_model option"
  vectorizer_pkl :: "(string \<Rightarrow> real list) option"

datatype classifier_error = ClassifierNotLoadedError | IndexError

definition load_model :: "model_files \<Rightarrow> classifier_state \<Rightarrow> bool \<times> classifier_state" where
  "load_model files st =
     (case (model_pkl files, vectorizer_pkl files) of
        (Some m, Some v) \<Rightarrow> (True, \<lparr>loaded_model = Some m, loaded_vectorizer = Some v\<rparr>)
      | _ \<Rightarrow> (False, st))"

definition is_model_loaded :: "classifier_state \<Rightarrow> bool" where
  "is_model_loaded st \<longleftrightarrow> loaded_model st \<noteq> None \<and> loaded_vectorizer st \<noteq> None"

text \<open>\<open>list(classes).index('Serious') if 'Serious' in classes else 1\<close>\<close>

fun index_of :: "string \<Rightarrow> string list \<Rightarrow> nat" where
  "index_of x [] = 0"
| "index_of x (y # ys) = (if x = y then 0 else Suc (index_of x ys))"

definition override_result :: ml_result where
  "override_result =
     \<lparr>prediction = Some ''Serious'',
      serious_probability = Some 1,
      non_serious_probability = Some 0,
      confidence = Some 1,
      reason = Some ''Rule-based override: high-risk keyword detected''\<rparr>"

text \<open>
  The part of \<open>predict_single\<close> after the loading guard, on a loaded model and
  vectorizer. Reading \<open>probabilities[serious_idx]\<close> out of range raises IndexError.
\<close>

definition predict_loaded ::
  "trained_model \<Rightarrow> (string \<Rightarrow> real list) \<Rightarrow> string \<Rightarrow> classifier_error + ml_result" where
  "predict_loaded m v text =
     (if rule_based_serious_override text then Inr override_result
      else
        let probabilities = predict_proba m (v text);
            serious_idx = (if ''Serious'' \<in> set (classes m)
                           then index_of ''Serious'' (classes m) else 1)
        in if serious_idx < length probabilities
           then
             let serious_prob = probabilities ! serious_idx
             in Inr \<lparr>prediction = Some (if serious_prob \<ge> SERIOUS_THRESHOLD
                                         then ''Serious'' else ''Non-Serious''),
                     serious_probability = Some serious_prob,
                     non_serious_probability = Some (1 - serious_prob),
                     confidence = Some (fold max (tl probabilities) (hd probabilities)),
                     reason = Some ''ML classifier''\<rparr>
           else Inl IndexError)"

text \<open>
  \<open>predict_single\<close>: the loading guard comes first and raises when the model is neither
  loaded nor loadable; the override is tested after it. The last case below cannot occur
  (a passed guard means both globals are set); HOL needs it for totality.
\<close>

definition predict_single ::
  "model_files \<Rightarrow> classifier_state \<Rightarrow> string \<Rightarrow> (classifier_error + ml_result) \<times> classifier_state" where
  "predict_single files st text =
     (let (ok, st') = (if \<not> is_model_loaded st then load_model files st else (True, st))
      in if \<not> ok then (Inl ClassifierNotLoadedError, st')
         else
           (case (loaded_model st', loaded_vectorizer st') of
              (Some m, Some v) \<Rightarrow> (predict_loaded m v text, st')
            | _ \<Rightarrow> (Inl ClassifierNotLoadedError, st')))"

section \<open>Properties of the keyword scorer\<close>

lemma lower_append: "lower (s @ t) = lower s @ lower t"
  by (simp add: lower_def)

lemma keyword_loop_no_match:
  "\<forall>(k, w) \<in> set kws. \<not> sublist k t \<Longrightarrow> keyword_loop kws t st = st"
  by (induction kws t st rule: keyword_loop.induct) auto

lemma keyword_loop_max_ge_init: "m \<le> snd (keyword_loop kws t (tr, m))"
proof (induction kws arbitrary: tr m)
  case Nil
  show ?case by simp
next
  case (Cons p kws)
  obtain k w where p: "p = (k, w)" by (cases p)
  show ?case
  proof (cases "sublist k t")
    case True
    have "m \<le> max m w" by simp
    also have "\<dots> \<le> snd (keyword_loop kws t (tr @ [k], max m w))" by (rule Cons.IH)
    finally show ?thesis using True p by simp
  next
    case False
    then show ?thesis using p Cons.IH by simp
  qed
qed

lemma keyword_loop_max_ge_weight:
  "(k, w) \<in> set kws \<Longrightarrow> sublist k t \<Longrightarrow> w \<le> snd (keyword_loop kws t (tr, m))"
proof (induction kws arbitrary: tr m)
  case Nil
  then show ?case by simp
next
  case (Cons p kws)
  obtain k' w' where p: "p = (k', w')" by (cases p)
  show ?case
  proof (cases "(k, w) = p")
    case True
    then have "w \<le> max m w" by simp
    also have "\<dots> \<le> snd (keyword_loop kws t (tr @ [k], max m w))"
      by (rule keyword_loop_max_ge_init)
    finally show ?thesis using True p Cons.prems by simp
  next
    case False
    then have "(k, w) \<in> set kws" using Cons.prems by simp
    then show ?thesis using p Cons.IH Cons.prems by simp
  qed
qed

text \<open>
  A text in which at least the keywords of another text occur gets at least its maximum,
  whatever the loop starts from.
\<close>

lemma keyword_loop_mono:
  "(\<And>k. sublist k t \<Longrightarrow> sublist k t') \<Longrightarrow> m \<le> m' \<Longrightarrow>
   snd (keyword_loop kws t (tr, m)) \<le> snd (keyword_loop kws t' (tr', m'))"
proof (induction kws arbitrary: tr m tr' m')
  case Nil
  then show ?case by simp
next
  case (Cons p kws)
  obtain k w where p: "p = (k, w)" by (cases p)
  have sub: "\<And>k. sublist k t \<Longrightarrow> sublist k t'" by (rule Cons.prems(1))
  show ?case
  proof (cases "sublist k t")
    case True
    then have t': "sublist k t'" by (rule sub)
    have "max m w \<le> max m' w" using Cons.prems(2) by simp
    then show ?thesis using True t' p Cons.IH [OF sub] by simp
  next
    case False
    show ?thesis
    proof (cases "sublist k t'")
      case True
      have "m \<le> max m' w" using Cons.prems(2) by simp
      then show ?thesis using False True p Cons.IH [OF sub] by simp
    next
      case nf: False
      then show ?thesis using False p Cons.IH [OF sub Cons.prems(2)] by simp
    qed
  qed
qed

lemma keyword_score_fst:
  "fst (calculate_keyword_score t) =
     (let m = snd (keyword_loop SERIOUS_KEYWORDS (lower t) ([], 0))
      in if m > 0 then real_of_int m / 10 else 0)"
  by (simp add: calculate_keyword_score_def Let_def split: prod.splits)

lemma normalized_mono:
  "(m::int) \<le> m' \<Longrightarrow>
   (if m > 0 then real_of_int m / 10 else 0) \<le> (if m' > 0 then real_of_int m' / 10 else 0)"
  by auto

lemma keyword_score_plain_text:
  "calculate_keyword_score ''aspirin mild headache'' = (0, [])"
  by code_simp

lemma keyword_score_rash_death:
  "calculate_keyword_score ''mild rash'' = (0, [])
   \<and> calculate_keyword_score ''mild rash then death'' = (1, [''death''])"
  by code_simp

text \<open>
  C7. Appending text never lowers the keyword score: for every text \<open>t\<close> and every text
  \<open>s\<close> appended to it, the score of \<open>t @ s\<close> is at least the score of \<open>t\<close>.
\<close>

theorem keyword_score_monotone:
  "fst (calculate_keyword_score t) \<le> fst (calculate_keyword_score (t @ s))"
proof -
  let ?m = "snd (keyword_loop SERIOUS_KEYWORDS (lower t) ([], 0))"
  let ?m' = "snd (keyword_loop SERIOUS_KEYWORDS (lower (t @ s)) ([], 0))"
  have sub: "\<And>k. sublist k (lower t) \<Longrightarrow> sublist k (lower (t @ s))"
    by (simp add: lower_append sublist_append)
  have "?m \<le> ?m'" by (rule keyword_loop_mono [OF sub]) simp_all
  then have "(if ?m > 0 then real_of_int ?m / 10 else 0)
           \<le> (if ?m' > 0 then real_of_int ?m' / 10 else 0)"
    by (rule normalized_mono)
  then show ?thesis by (simp only: keyword_score_fst Let_def)
qed

theorem keyword_score_monotone_witness:
  "fst (calculate_keyword_score ''mild rash'')
     \<le> fst (calculate_keyword_score (''mild rash'' @ '' then death''))
   \<and> fst (calculate_keyword_score ''mild rash'') = 0
   \<and> fst (calculate_keyword_score (''mild rash'' @ '' then death'')) = 1"
  using keyword_score_monotone [of "''mild rash''" "'' then death''"] keyword_score_rash_death
  by simp

section \<open>Properties of the escalation engine\<close>

text \<open>
  C4. The banding of \<open>determine_risk_level\<close> is total and non-overlapping: every score
  (in particular every score in [0,1]) gets one of the four level names, the names are
  pairwise different, and a score gets LOW exactly when it is below 0.5, MEDIUM exactly
  in [0.5, 0.7), HIGH exactly in [0.7, 0.85) and CRITICAL exactly from 0.85 on, each band
  including its lower edge.
\<close>

theorem risk_level_bands:
  "determine_risk_level s \<in> {''LOW'', ''MEDIUM'', ''HIGH'', ''CRITICAL''}
   \<and> distinct [''LOW'', ''MEDIUM'', ''HIGH'', ''CRITICAL'']
   \<and> (determine_risk_level s = ''LOW'') = (s < 5 / 10)
   \<and> (determine_risk_level s = ''MEDIUM'') = (5 / 10 \<le> s \<and> s < 7 / 10)
   \<and> (determine_risk_level s = ''HIGH'') = (7 / 10 \<le> s \<and> s < 85 / 100)
   \<and> (determine_risk_level s = ''CRITICAL'') = (85 / 100 \<le> s)"
  by (auto simp: determine_risk_level_def)

theorem risk_level_bands_witness:
  "determine_risk_level (5 / 10) = ''MEDIUM''
   \<and> determine_risk_level (7 / 10) = ''HIGH''
   \<and> determine_risk_level (85 / 100) = ''CRITICAL''
   \<and> determine_risk_level 0 = ''LOW''
   \<and> determine_risk_level 1 = ''CRITICAL''"
  using risk_level_bands [of "5 / 10"] risk_level_bands [of "7 / 10"]
    risk_level_bands [of "85 / 100"] risk_level_bands [of 0] risk_level_bands [of 1]
  by simp

text \<open>
  C2. Scenario B: with \<open>serious_probability = 0.9\<close> and a combined text in which no keyword
  of the severity table occurs, \<open>evaluate_escalation\<close> returns keyword score 0, final score
  0.7 * 0.9 + 0.3 * 0 = 0.63, risk level MEDIUM and \<open>should_escalate = True\<close>.
\<close>

theorem scenario_B_no_keywords:
  assumes "serious_probability ml_prediction = Some (9 / 10)"
    and "\<forall>(k, w) \<in> set SERIOUS_KEYWORDS.
           \<not> sublist k (lower (combined_text drugname adverse_event ents))"
  shows "keyword_score (evaluate_escalation ml_prediction drugname adverse_event ents) = 0
       \<and> final_score (evaluate_escalation ml_prediction drugname adverse_event ents)
           = 7 / 10 * (9 / 10) + 3 / 10 * 0
       \<and> final_score (evaluate_escalation ml_prediction drugname adverse_event ents) = 63 / 100
       \<and> risk_level (evaluate_escalation ml_prediction drugname adverse_event ents) = ''MEDIUM''
       \<and> should_escalate (evaluate_escalation ml_prediction drugname adverse_event ents) = True"
proof -
  have "calculate_keyword_score (combined_text drugname adverse_event ents) = (0, [])"
    using keyword_loop_no_match [OF assms(2)]
    by (simp add: calculate_keyword_score_def)
  then show ?thesis using assms(1)
    by (simp add: evaluate_escalation_def Let_def KEYWORD_WEIGHT_def ESCALATION_THRESHOLD_def
        determine_risk_level_def)
qed

lemma no_keyword_in_plain_text:
  "\<forall>(k, w) \<in> set SERIOUS_KEYWORDS.
     \<not> sublist k (lower (combined_text ''aspirin'' ''mild headache'' None))"
  by code_simp

theorem scenario_B_no_keywords_witness:
  "serious_probability
     \<lparr>prediction = Some ''Serious'', serious_probability = Some (9 / 10),
      non_serious_probability = Some (1 / 10), confidence = Some (9 / 10),
      reason = Some ''ML classifier''\<rparr> = Some (9 / 10)
   \<and> filter (\<lambda>(k, w). sublist k (lower (combined_text ''aspirin'' ''mild headache'' None)))
         SERIOUS_KEYWORDS = []
   \<and> final_score
       (evaluate_escalation
          \<lparr>prediction = Some ''Serious'', serious_probability = Some (9 / 10),
           non_serious_probability = Some (1 / 10), confidence = Some (9 / 10),
           reason = Some ''ML classifier''\<rparr> ''aspirin'' ''mild headache'' None) = 63 / 100
   \<and> risk_level
       (evaluate_escalation
          \<lparr>prediction = Some ''Serious'', serious_probability = Some (9 / 10),
           non_serious_probability = Some (1 / 10), confidence = Some (9 / 10),
           reason = Some ''ML classifier''\<rparr> ''aspirin'' ''mild headache'' None) = ''MEDIUM''
   \<and> should_escalate
       (evaluate_escalation
          \<lparr>prediction = Some ''Serious'', serious_probability = Some (9 / 10),
           non_serious_probability = Some (1 / 10), confidence = Some (9 / 10),
           reason = Some ''ML classifier''\<rparr> ''aspirin'' ''mild headache'' None)"
proof -
  let ?mp = "\<lparr>prediction = Some ''Serious'', serious_probability = Some (9 / 10),
      non_serious_probability = Some (1 / 10), confidence = Some (9 / 10),
      reason = Some ''ML classifier''\<rparr>"
  have p: "serious_probability ?mp = Some (9 / 10)" by simp
  have none: "filter (\<lambda>(k, w). sublist k (lower (combined_text ''aspirin'' ''mild headache'' None)))
         SERIOUS_KEYWORDS = []"
    using no_keyword_in_plain_text by (auto simp: filter_empty_conv)
  show ?thesis
    using scenario_B_no_keywords [OF p no_keyword_in_plain_text] none
    by simp
qed

text \<open>
  C3. Whenever a keyword of the severity table with weight at least 8 occurs in the
  lowercased combined text, the keyword score is at least 0.8 and \<open>should_escalate\<close> is
  \<open>True\<close>, for every ML prediction, so also for \<open>serious_probability = 0.0\<close>.
\<close>

theorem critical_keyword_forces_escalation:
  assumes "(k, w) \<in> set SERIOUS_KEYWORDS" and "8 \<le> w"
    and "sublist k (lower (combined_text drugname adverse_event ents))"
  shows "8 / 10 \<le> keyword_score (evaluate_escalation ml_prediction drugname adverse_event ents)
       \<and> should_escalate (evaluate_escalation ml_prediction drugname adverse_event ents)"
proof -
  let ?t = "combined_text drugname adverse_event ents"
  let ?m = "snd (keyword_loop SERIOUS_KEYWORDS (lower ?t) ([], 0))"
  have "w \<le> ?m" using assms(1,3) by (rule keyword_loop_max_ge_weight)
  then have "8 \<le> ?m" using assms(2) by simp
  then have ks: "8 / 10 \<le> fst (calculate_keyword_score ?t)"
    by (simp add: keyword_score_fst Let_def)
  obtain s tr where c: "calculate_keyword_score ?t = (s, tr)"
    by (cases "calculate_keyword_score ?t")
  from ks c have "8 / 10 \<le> s" by simp
  with c show ?thesis
    by (simp add: evaluate_escalation_def Let_def)
qed

lemma hospitalized_in_table: "(''hospitalized'', 8) \<in> set SERIOUS_KEYWORDS"
  by (simp add: SERIOUS_KEYWORDS_def)

lemma hospitalized_in_text:
  "sublist ''hospitalized'' (lower (combined_text ''drugx'' ''Patient was HOSPITALIZED'' None))"
  by code_simp

theorem critical_keyword_forces_escalation_witness:
  "(''hospitalized'', 8) \<in> set SERIOUS_KEYWORDS \<and> (8::int) \<le> 8
   \<and> sublist ''hospitalized'' (lower (combined_text ''drugx'' ''Patient was HOSPITALIZED'' None))
   \<and> should_escalate
       (evaluate_escalation
          \<lparr>prediction = Some ''Non-Serious'', serious_probability = Some 0,
           non_serious_probability = Some 1, confidence = Some 1,
           reason = Some ''ML classifier''\<rparr> ''drugx'' ''Patient was HOSPITALIZED'' None)"
proof -
  have w: "(8::int) \<le> 8" by simp
  show ?thesis
    using critical_keyword_forces_escalation [OF hospitalized_in_table w hospitalized_in_text]
      hospitalized_in_table hospitalized_in_text
    by simp
qed

text \<open>
  C6. When the key \<open>serious_probability\<close> is missing from the prediction dict,
  \<open>evaluate_escalation\<close> uses 0.5 as the ML probability: the result reports it and the
  final score is computed from it. The function has no raising path on such an input:
  it is total and returns an \<open>EscalationResult\<close>.
\<close>

theorem missing_probability_defaults_to_half:
  assumes "serious_probability ml_prediction = None"
  shows "ml_probability (evaluate_escalation ml_prediction drugname adverse_event ents) = 5 / 10
       \<and> final_score (evaluate_escalation ml_prediction drugname adverse_event ents) =
           (let ks = fst (calculate_keyword_score (combined_text drugname adverse_event ents))
            in if ks \<ge> 8 / 10 then max (5 / 10) ks else (1 - 3 / 10) * (5 / 10) + 3 / 10 * ks)"
  using assms
  by (simp add: evaluate_escalation_def Let_def KEYWORD_WEIGHT_def split: prod.splits)

lemma combined_text_plain: "combined_text ''aspirin'' ''mild headache'' None = ''aspirin mild headache''"
  by (simp add: combined_text_def)

theorem missing_probability_defaults_to_half_witness:
  "serious_probability
     \<lparr>prediction = None, serious_probability = None, non_serious_probability = None,
      confidence = None, reason = None\<rparr> = None
   \<and> ml_probability
       (evaluate_escalation
          \<lparr>prediction = None, serious_probability = None, non_serious_probability = None,
           confidence = None, reason = None\<rparr> ''aspirin'' ''mild headache'' None) = 5 / 10
   \<and> final_score
       (evaluate_escalation
          \<lparr>prediction = None, serious_probability = None, non_serious_probability = None,
           confidence = None, reason = None\<rparr> ''aspirin'' ''mild headache'' None) = 35 / 100"
proof -
  let ?mp = "\<lparr>prediction = None, serious_probability = None, non_serious_probability = None,
      confidence = None, reason = None\<rparr>"
  have p: "serious_probability ?mp = None" by simp
  show ?thesis
    using missing_probability_defaults_to_half [OF p, of "''aspirin''" "''mild headache''" None]
    by (simp add: combined_text_plain keyword_score_plain_text)
qed

text \<open>
  C10. In \<open>evaluate_escalation\<close> the second disjunct of the escalation rule is redundant:
  for every input, \<open>should_escalate\<close> equals \<open>final_score >= 0.6\<close> alone, because a
  keyword score of at least 0.8 makes the final score the maximum of the two scores.
\<close>

theorem escalation_is_threshold_on_final_score:
  "should_escalate (evaluate_escalation ml_prediction drugname adverse_event ents)
     = (final_score (evaluate_escalation ml_prediction drugname adverse_event ents)
          \<ge> ESCALATION_THRESHOLD)
   \<and> ESCALATION_THRESHOLD = 6 / 10
   \<and> (keyword_score (evaluate_escalation ml_prediction drugname adverse_event ents) \<ge> 8 / 10
        \<longrightarrow> final_score (evaluate_escalation ml_prediction drugname adverse_event ents)
              = max (ml_probability (evaluate_escalation ml_prediction drugname adverse_event ents))
                    (keyword_score (evaluate_escalation ml_prediction drugname adverse_event ents)))"
  by (auto simp: evaluate_escalation_def Let_def ESCALATION_THRESHOLD_def split: prod.splits)

lemma keyword_score_hospitalized:
  "calculate_keyword_score (combined_text ''drugx'' ''Patient was HOSPITALIZED'' None)
     = (8 / 10, [''hospitalized''])"
  by code_simp

theorem escalation_is_threshold_on_final_score_witness:
  "keyword_score
     (evaluate_escalation
        \<lparr>prediction = Some ''Non-Serious'', serious_probability = Some 0,
         non_serious_probability = Some 1, confidence = Some 1,
         reason = Some ''ML classifier''\<rparr> ''drugx'' ''Patient was HOSPITALIZED'' None) \<ge> 8 / 10
   \<and> final_score
       (evaluate_escalation
          \<lparr>prediction = Some ''Non-Serious'', serious_probability = Some 0,
           non_serious_probability = Some 1, confidence = Some 1,
           reason = Some ''ML classifier''\<rparr> ''drugx'' ''Patient was HOSPITALIZED'' None) = 8 / 10
   \<and> should_escalate
       (evaluate_escalation
          \<lparr>prediction = Some ''Non-Serious'', serious_probability = Some 0,
           non_serious_probability = Some 1, confidence = Some 1,
           reason = Some ''ML classifier''\<rparr> ''drugx'' ''Patient was HOSPITALIZED'' None)"
proof -
  let ?r = "evaluate_escalation
        \<lparr>prediction = Some ''Non-Serious'', serious_probability = Some 0,
         non_serious_probability = Some 1, confidence = Some 1,
         reason = Some ''ML classifier''\<rparr> ''drugx'' ''Patient was HOSPITALIZED'' None"
  have ks: "keyword_score ?r = 8 / 10"
    by (simp add: evaluate_escalation_def Let_def keyword_score_hospitalized)
  have fs: "final_score ?r = 8 / 10"
    by (simp add: evaluate_escalation_def Let_def keyword_score_hospitalized)
  show ?thesis
    using escalation_is_threshold_on_final_score
      [of "\<lparr>prediction = Some ''Non-Serious'', serious_probability = Some 0,
         non_serious_probability = Some 1, confidence = Some 1,
         reason = Some ''ML classifier''\<rparr>" "''drugx''" "''Patient was HOSPITALIZED''" None]
      ks fs
    by (simp add: ESCALATION_THRESHOLD_def)
qed

section \<open>Properties of the classifier's override gate\<close>

lemma override_patient_death: "rule_based_serious_override ''patient death''"
  by code_simp

text \<open>
  C9, as stated, fails: \<open>predict_single\<close> first requires the model. With no model loaded
  and no model files, a text with the override keyword \<open>death\<close> raises
  \<open>ClassifierNotLoadedError\<close> instead of returning the override result.
\<close>

theorem predict_single_override_needs_model:
  "rule_based_serious_override ''patient death''
   \<and> fst (predict_single \<lparr>model_pkl = None, vectorizer_pkl = None\<rparr>
             \<lparr>loaded_model = None, loaded_vectorizer = None\<rparr> ''patient death'')
       = Inl ClassifierNotLoadedError"
  using override_patient_death
  by (simp add: predict_single_def is_model_loaded_def load_model_def)

lemma predict_single_not_loadable:
  assumes "\<not> is_model_loaded st"
    and "model_pkl files = None \<or> vectorizer_pkl files = None"
  shows "fst (predict_single files st text) = Inl ClassifierNotLoadedError"
  using assms
  by (auto simp: predict_single_def load_model_def split: option.splits)

text \<open>
  C9, amended. Whenever the model is loaded or can be loaded from its files, every text
  in which a keyword of the classifier's override list occurs gets the fixed result
  Serious with \<open>serious_probability\<close> 1.0, \<open>non_serious_probability\<close> 0.0 and \<open>confidence\<close>
  1.0, whatever the model would predict.
\<close>

theorem predict_single_override:
  assumes "is_model_loaded st \<or> (model_pkl files \<noteq> None \<and> vectorizer_pkl files \<noteq> None)"
    and "rule_based_serious_override text"
  shows "fst (predict_single files st text) =
           Inr \<lparr>prediction = Some ''Serious'',
                serious_probability = Some 1,
                non_serious_probability = Some 0,
                confidence = Some 1,
                reason = Some ''Rule-based override: high-risk keyword detected''\<rparr>"
  using assms
  by (auto simp: predict_single_def is_model_loaded_def load_model_def predict_loaded_def
      override_result_def split: option.splits)

theorem predict_single_override_witness:
  "model_pkl \<lparr>model_pkl = Some \<lparr>classes = [''Non-Serious'', ''Serious''],
                                 predict_proba = (\<lambda>x. [9 / 10, 1 / 10])\<rparr>,
              vectorizer_pkl = Some (\<lambda>t. [])\<rparr> \<noteq> None
   \<and> vectorizer_pkl \<lparr>model_pkl = Some \<lparr>classes = [''Non-Serious'', ''Serious''],
                                 predict_proba = (\<lambda>x. [9 / 10, 1 / 10])\<rparr>,
              vectorizer_pkl = Some (\<lambda>t. [])\<rparr> \<noteq> None
   \<and> rule_based_serious_override ''patient death''
   \<and> fst (predict_single
            \<lparr>model_pkl = Some \<lparr>classes = [''Non-Serious'', ''Serious''],
                                predict_proba = (\<lambda>x. [9 / 10, 1 / 10])\<rparr>,
             vectorizer_pkl = Some (\<lambda>t. [])\<rparr>
            \<lparr>loaded_model = None, loaded_vectorizer = None\<rparr> ''patient death'')
       = Inr \<lparr>prediction = Some ''Serious'',
              serious_probability = Some 1,
              non_serious_probability = Some 0,
              confidence = Some 1,
              reason = Some ''Rule-based override: high-risk keyword detected''\<rparr>"
  using predict_single_override
    [of "\<lparr>loaded_model = None, loaded_vectorizer = None\<rparr>"
        "\<lparr>model_pkl = Some \<lparr>classes = [''Non-Serious'', ''Serious''],
                                predict_proba = (\<lambda>x. [9 / 10, 1 / 10])\<rparr>,
             vectorizer_pkl = Some (\<lambda>t. [])\<rparr>" "''patient death''"]
    override_patient_death
  by simp

section \<open>Properties of the similarity search\<close>

lemma make_similar_event_id: "se_report_id (make_similar_event qs h) = hit_id h"
  by (simp add: make_similar_event_def Let_def)

text \<open>The loop never adds the current report, when its id is not the empty string.\<close>

lemma collect_similar_excludes:
  "R \<noteq> [] \<Longrightarrow> R \<notin> se_report_id ` set acc \<Longrightarrow>
   R \<notin> se_report_id ` set (collect_similar (Some R) qs k hs acc)"
proof (induction hs arbitrary: acc)
  case Nil
  then show ?case by simp
next
  case (Cons h hs)
  show ?case
  proof (cases "is_current (Some R) (hit_id h)")
    case True
    then show ?thesis using Cons by simp
  next
    case False
    then have ne: "hit_id h \<noteq> R" using Cons.prems(1) by (simp add: is_current_def)
    let ?acc' = "acc @ [make_similar_event qs h]"
    have acc': "R \<notin> se_report_id ` set ?acc'"
      using Cons.prems(2) ne by (auto simp: make_similar_event_id)
    show ?thesis
    proof (cases "int (length ?acc') \<ge> k")
      case True
      then show ?thesis using False acc' by (simp add: Let_def)
    next
      case nb: False
      have "R \<notin> se_report_id ` set (collect_similar (Some R) qs k hs ?acc')"
        using Cons.prems(1) acc' by (rule Cons.IH)
      then show ?thesis using False nb by (simp add: Let_def)
    qed
  qed
qed

text \<open>Every result of the search is the empty list or what the loop makes of some hits.\<close>

lemma search_similar_events_cases:
  "search_similar_events vs qd qe qs qr cur k esc = []
   \<or> (\<exists>hits. search_similar_events vs qd qe qs qr cur k esc = collect_similar cur qs k hits [])"
proof (cases "embedding_model vs")
  case None
  then show ?thesis by (simp add: search_similar_events_def)
next
  case (Some encode)
  show ?thesis
  proof (cases "collection vs")
    case None
    then show ?thesis using Some by (simp add: search_similar_events_def)
  next
    case es: (Some es)
    show ?thesis
      using Some es
      by (cases "collection_query (distance vs) es
                   (encode (build_canonical_embedding_text qd qe
                      (case qr of None \<Rightarrow> ''UNKNOWN''
                       | Some r \<Rightarrow> if r \<noteq> [] then r else ''UNKNOWN'') ''QUERY'' qs))
                   (k + 10) (if esc then Some ''ESCALATE'' else None)")
        (auto simp: search_similar_events_def)
  qed
qed

lemma search_similar_events_excludes:
  assumes "R \<noteq> []"
  shows "R \<notin> se_report_id ` set (search_similar_events vs qd qe qs qr (Some R) k esc)"
proof -
  have loop: "R \<notin> se_report_id ` set (collect_similar (Some R) qs k hits [])" for hits
    using assms by (rule collect_similar_excludes) simp
  consider "search_similar_events vs qd qe qs qr (Some R) k esc = []"
    | hits where "search_similar_events vs qd qe qs qr (Some R) k esc
                    = collect_similar (Some R) qs k hits []"
    using search_similar_events_cases [of vs qd qe qs qr "Some R" k esc] by blast
  then show ?thesis
  proof cases
    case 1
    then show ?thesis by simp
  next
    case 2
    then show ?thesis using loop [of hits] by simp
  qed
qed

lemma collect_similar_ids:
  "se_report_id ` set (collect_similar cur qs k hs acc)
     \<subseteq> se_report_id ` set acc \<union> hit_id ` set hs"
proof (induction hs arbitrary: acc)
  case Nil
  show ?case by simp
next
  case (Cons h hs)
  let ?acc' = "acc @ [make_similar_event qs h]"
  have step: "se_report_id ` set ?acc' \<subseteq> se_report_id ` set acc \<union> hit_id ` set (h # hs)"
    by (auto simp: make_similar_event_id)
  show ?case
  proof (cases "is_current cur (hit_id h)")
    case True
    then show ?thesis using Cons.IH [of acc] by auto
  next
    case False
    show ?thesis
    proof (cases "int (length ?acc') \<ge> k")
      case True
      then show ?thesis using False step by (simp add: Let_def)
    next
      case nb: False
      have "se_report_id ` set (collect_similar cur qs k hs ?acc')
              \<subseteq> se_report_id ` set ?acc' \<union> hit_id ` set hs"
        by (rule Cons.IH)
      also have "\<dots> \<subseteq> se_report_id ` set acc \<union> hit_id ` set (h # hs)"
        using step by auto
      finally show ?thesis using False nb by (simp add: Let_def)
    qed
  qed
qed

lemma collection_query_ids:
  assumes "collection_query metric es q n w = Inr hits"
  shows "hit_id ` set hits \<subseteq> entry_id ` set es"
proof -
  let ?passing = "case w of None \<Rightarrow> es
                  | Some d \<Rightarrow> filter (\<lambda>e. md_escalation_decision (entry_metadata e) = Some d) es"
  let ?ranked = "sort_key (\<lambda>e. metric q (entry_embedding e)) ?passing"
  have hits: "hits = map (\<lambda>e. \<lparr>hit_id = entry_id e,
                           hit_metadata = entry_metadata e,
                           hit_distance = metric q (entry_embedding e),
                           hit_document = entry_document e\<rparr>)
                  (take (nat n) ?ranked)"
    using assms by (simp add: collection_query_def Let_def split: if_splits)
  have "set (take (nat n) ?ranked) \<subseteq> set ?ranked" by (rule set_take_subset)
  also have "\<dots> = set ?passing" by simp
  also have "\<dots> \<subseteq> set es" by (cases w) auto
  finally have sub: "set (take (nat n) ?ranked) \<subseteq> set es" .
  show ?thesis unfolding hits using sub by auto
qed

lemma search_similar_events_no_collection:
  "collection vs = None \<Longrightarrow> search_similar_events vs qd qe qs qr cur k esc = []"
  by (cases "embedding_model vs") (simp_all add: search_similar_events_def)

lemma upsert_ids:
  assumes "upsert e es = Inr es'"
  shows "entry_id e \<noteq> [] \<and> entry_id ` set es' \<subseteq> insert (entry_id e) (entry_id ` set es)"
proof -
  have ne: "entry_id e \<noteq> []"
    using assms by (auto simp: upsert_def split: if_splits)
  show ?thesis
  proof (cases "entry_id e \<in> set (map entry_id es)")
    case True
    then have "es' = map (\<lambda>x. if entry_id x = entry_id e then e else x) es"
      using assms ne by (simp add: upsert_def)
    then show ?thesis using ne by auto
  next
    case False
    then have "es' = es @ [e]"
      using assms ne by (simp add: upsert_def)
    then show ?thesis using ne by auto
  qed
qed

lemma index_audit_event_collection:
  "snd (index_audit_event vs rid d a risk dec syms p ts now) = vs
   \<or> (\<exists>es e es'. collection vs = Some es \<and> upsert e es = Inr es'
         \<and> snd (index_audit_event vs rid d a risk dec syms p ts now)
             = vs\<lparr>collection := Some es'\<rparr>)"
proof (cases "embedding_model vs")
  case None
  then show ?thesis by (simp add: index_audit_event_def Let_def)
next
  case (Some encode)
  show ?thesis
  proof (cases "collection vs")
    case None
    then show ?thesis using Some by (simp add: index_audit_event_def Let_def)
  next
    case es: (Some es)
    let ?e = "\<lparr>entry_id = rid,
              entry_embedding = encode (build_canonical_embedding_text d a risk dec
                                  (Some (case syms of None \<Rightarrow> [] | Some ss \<Rightarrow> ss))),
              entry_document = build_canonical_embedding_text d a risk dec
                                  (Some (case syms of None \<Rightarrow> [] | Some ss \<Rightarrow> ss)),
              entry_metadata =
                \<lparr>md_report_id = Some rid,
                 md_drugname = Some d,
                 md_risk_level = Some risk,
                 md_escalation_decision = Some dec,
                 md_ml_probability = Some p,
                 md_timestamp = Some (case ts of
                                        None \<Rightarrow> now
                                      | Some t \<Rightarrow> if t \<noteq> [] then t else now),
                 md_symptoms = Some (JsonList (case syms of None \<Rightarrow> [] | Some ss \<Rightarrow> ss))\<rparr>\<rparr>"
    show ?thesis
    proof (cases "upsert ?e es")
      case (Inl err)
      then have "snd (index_audit_event vs rid d a risk dec syms p ts now) = vs"
        using Some es by (simp add: index_audit_event_def Let_def)
      then show ?thesis by simp
    next
      case (Inr es')
      then have "snd (index_audit_event vs rid d a risk dec syms p ts now)
                   = vs\<lparr>collection := Some es'\<rparr>"
        using Some es by (simp add: index_audit_event_def Let_def)
      then show ?thesis using es Inr by blast
    qed
  qed
qed

text \<open>
  The index never comes to hold an entry with the empty id: \<open>index_audit_event\<close> is its
  only writer, and the upsert of the empty id is refused.
\<close>

lemma index_audit_event_keeps_ids_nonempty:
  assumes inv: "\<forall>es. collection vs = Some es \<longrightarrow> [] \<notin> entry_id ` set es"
    and after: "collection (snd (index_audit_event vs rid d a risk dec syms p ts now)) = Some es'"
  shows "[] \<notin> entry_id ` set es'"
  using index_audit_event_collection [of vs rid d a risk dec syms p ts now]
proof (elim disjE exE conjE)
  assume "snd (index_audit_event vs rid d a risk dec syms p ts now) = vs"
  then have "collection vs = Some es'" using after by simp
  then show ?thesis using inv by simp
next
  fix es e es2
  assume c: "collection vs = Some es" and u: "upsert e es = Inr es2"
    and s: "snd (index_audit_event vs rid d a risk dec syms p ts now)
               = vs\<lparr>collection := Some es2\<rparr>"
  have eq: "es2 = es'" using after unfolding s by simp
  have old: "[] \<notin> entry_id ` set es" using inv c by simp
  have up: "entry_id e \<noteq> [] \<and> entry_id ` set es2 \<subseteq> insert (entry_id e) (entry_id ` set es)"
    using u by (rule upsert_ids)
  show ?thesis
  proof
    assume "[] \<in> entry_id ` set es'"
    then have "[] \<in> entry_id ` set es2" unfolding eq .
    then have "[] \<in> insert (entry_id e) (entry_id ` set es)"
      using up by (rule_tac subsetD) simp_all
    then have "[] = entry_id e \<or> [] \<in> entry_id ` set es" by (simp only: insert_iff)
    then show False using up old by metis
  qed
qed

text \<open>Every report id the search returns is the id of an entry of the collection.\<close>

lemma search_similar_events_ids:
  assumes "collection vs = Some es"
  shows "se_report_id ` set (search_similar_events vs qd qe qs qr cur k esc)
           \<subseteq> entry_id ` set es"
proof (cases "embedding_model vs")
  case None
  then show ?thesis by (simp add: search_similar_events_def)
next
  case (Some encode)
  let ?q = "collection_query (distance vs) es
              (encode (build_canonical_embedding_text qd qe
                 (case qr of None \<Rightarrow> ''UNKNOWN''
                  | Some r \<Rightarrow> if r \<noteq> [] then r else ''UNKNOWN'') ''QUERY'' qs))
              (k + 10) (if esc then Some ''ESCALATE'' else None)"
  show ?thesis
  proof (cases ?q)
    case (Inl err)
    then have "search_similar_events vs qd qe qs qr cur k esc = []"
      using Some assms by (simp add: search_similar_events_def)
    then show ?thesis by simp
  next
    case (Inr hits)
    have res: "search_similar_events vs qd qe qs qr cur k esc = collect_similar cur qs k hits []"
      using Some assms Inr by (simp add: search_similar_events_def)
    have "se_report_id ` set (collect_similar cur qs k hits [])
            \<subseteq> se_report_id ` set ([]::similar_event list) \<union> hit_id ` set hits"
      by (rule collect_similar_ids)
    then have "se_report_id ` set (collect_similar cur qs k hits []) \<subseteq> hit_id ` set hits"
      by simp
    also have "\<dots> \<subseteq> entry_id ` set es" using Inr by (rule collection_query_ids)
    finally show ?thesis unfolding res .
  qed
qed

text \<open>
  C8. For every similarity query that excludes the report id \<open>R\<close>, no returned match has
  report id \<open>R\<close>, even if \<open>R\<close> is in the index and otherwise matches; this holds for
  \<open>search_similar_events\<close> and for \<open>get_similar_serious_events_vector\<close>. Here \<open>R\<close> is a
  non-empty string, as every generated report id is, or else the index holds no entry
  with the empty id, as is the case for every index that \<open>index_audit_event\<close> has written.
\<close>

theorem similarity_query_excludes_current_report:
  assumes "R \<noteq> [] \<or> (\<forall>es. collection vs = Some es \<longrightarrow> [] \<notin> entry_id ` set es)"
  shows "R \<notin> se_report_id ` set (search_similar_events vs qd qe qs qr (Some R) k esc)
       \<and> Some R \<notin> sd_report_id `
            set (get_similar_serious_events_vector vs drugname adverse_event syms risk R limit)"
proof -
  have search: "R \<notin> se_report_id ` set (search_similar_events vs qd' qe' qs' qr' (Some R) k' esc')"
    for qd' qe' qs' qr' k' esc'
  proof (cases "R = []")
    case False
    then show ?thesis by (rule search_similar_events_excludes)
  next
    case True
    show ?thesis
    proof (cases "collection vs")
      case None
      then have "search_similar_events vs qd' qe' qs' qr' (Some R) k' esc' = []"
        by (rule search_similar_events_no_collection)
      then show ?thesis by simp
    next
      case (Some es)
      have held: "[] \<notin> entry_id ` set es" using assms True Some by simp
      have sub: "se_report_id ` set (search_similar_events vs qd' qe' qs' qr' (Some R) k' esc')
                   \<subseteq> entry_id ` set es"
        using Some by (rule search_similar_events_ids)
      show ?thesis
      proof
        assume "R \<in> se_report_id ` set (search_similar_events vs qd' qe' qs' qr' (Some R) k' esc')"
        then have "R \<in> entry_id ` set es" using sub by (rule_tac subsetD) simp_all
        then show False using held True by simp
      qed
    qed
  qed
  have "Some R \<notin> sd_report_id `
          set (get_similar_serious_events_vector vs drugname adverse_event syms risk R limit)"
    using search [of drugname adverse_event "Some syms" "Some risk" limit True]
    by (auto simp: get_similar_serious_events_vector_def)
  then show ?thesis using search by simp
qed

lemma two_entry_search:
  "map se_report_id
     (search_similar_events
        \<lparr>embedding_model = Some (\<lambda>t. [0]),
         collection =
           Some [\<lparr>entry_id = ''RPT-1'', entry_embedding = [0], entry_document = ''first'',
                  entry_metadata =
                    \<lparr>md_report_id = Some ''RPT-1'', md_drugname = Some ''aspirin'',
                     md_risk_level = Some ''CRITICAL'', md_escalation_decision = Some ''ESCALATE'',
                     md_ml_probability = Some 1, md_timestamp = Some ''2024-01-15T10:30:00'',
                     md_symptoms = Some (JsonList [''Death''])\<rparr>\<rparr>,
                 \<lparr>entry_id = ''RPT-2'', entry_embedding = [0], entry_document = ''second'',
                  entry_metadata =
                    \<lparr>md_report_id = Some ''RPT-2'', md_drugname = Some ''aspirin'',
                     md_risk_level = Some ''HIGH'', md_escalation_decision = Some ''ESCALATE'',
                     md_ml_probability = Some (8 / 10), md_timestamp = Some ''2024-01-16T09:00:00'',
                     md_symptoms = Some (JsonList [''Stroke''])\<rparr>\<rparr>],
         distance = (\<lambda>x y. 0)\<rparr>
        ''aspirin'' ''patient died'' (Some [''Death'']) (Some ''CRITICAL'') (Some ''RPT-1'') 5 True)
   = [''RPT-2'']"
  by (simp add: Let_def search_similar_events_def collection_query_def is_current_def
      make_similar_event_id)

theorem similarity_query_excludes_current_report_witness:
  "''RPT-1'' \<noteq> []
   \<and> ''RPT-1'' \<notin> se_report_id ` set
       (search_similar_events
        \<lparr>embedding_model = Some (\<lambda>t. [0]),
         collection =
           Some [\<lparr>entry_id = ''RPT-1'', entry_embedding = [0], entry_document = ''first'',
                  entry_metadata =
                    \<lparr>md_report_id = Some ''RPT-1'', md_drugname = Some ''aspirin'',
                     md_risk_level = Some ''CRITICAL'', md_escalation_decision = Some ''ESCALATE'',
                     md_ml_probability = Some 1, md_timestamp = Some ''2024-01-15T10:30:00'',
                     md_symptoms = Some (JsonList [''Death''])\<rparr>\<rparr>,
                 \<lparr>entry_id = ''RPT-2'', entry_embedding = [0], entry_document = ''second'',
                  entry_metadata =
                    \<lparr>md_report_id = Some ''RPT-2'', md_drugname = Some ''aspirin'',
                     md_risk_level = Some ''HIGH'', md_escalation_decision = Some ''ESCALATE'',
                     md_ml_probability = Some (8 / 10), md_timestamp = Some ''2024-01-16T09:00:00'',
                     md_symptoms = Some (JsonList [''Stroke''])\<rparr>\<rparr>],
         distance = (\<lambda>x y. 0)\<rparr>
        ''aspirin'' ''patient died'' (Some [''Death'']) (Some ''CRITICAL'') (Some ''RPT-1'') 5 True)
   \<and> map se_report_id
       (search_similar_events
        \<lparr>embedding_model = Some (\<lambda>t. [0]),
         collection =
           Some [\<lparr>entry_id = ''RPT-1'', entry_embedding = [0], entry_document = ''first'',
                  entry_metadata =
                    \<lparr>md_report_id = Some ''RPT-1'', md_drugname = Some ''aspirin'',
                     md_risk_level = Some ''CRITICAL'', md_escalation_decision = Some ''ESCALATE'',
                     md_ml_probability = Some 1, md_timestamp = Some ''2024-01-15T10:30:00'',
                     md_symptoms = Some (JsonList [''Death''])\<rparr>\<rparr>,
                 \<lparr>entry_id = ''RPT-2'', entry_embedding = [0], entry_document = ''second'',
                  entry_metadata =
                    \<lparr>md_report_id = Some ''RPT-2'', md_drugname = Some ''aspirin'',
                     md_risk_level = Some ''HIGH'', md_escalation_decision = Some ''ESCALATE'',
                     md_ml_probability = Some (8 / 10), md_timestamp = Some ''2024-01-16T09:00:00'',
                     md_symptoms = Some (JsonList [''Stroke''])\<rparr>\<rparr>],
         distance = (\<lambda>x y. 0)\<rparr>
        ''aspirin'' ''patient died'' (Some [''Death'']) (Some ''CRITICAL'') (Some ''RPT-1'') 5 True)
     = [''RPT-2'']
   \<and> [] \<notin> set (map entry_id
        (the (collection
        \<lparr>embedding_model = Some (\<lambda>t. [0]),
         collection =
           Some [\<lparr>entry_id = ''RPT-1'', entry_embedding = [0], entry_document = ''first'',
                  entry_metadata =
                    \<lparr>md_report_id = Some ''RPT-1'', md_drugname = Some ''aspirin'',
                     md_risk_level = Some ''CRITICAL'', md_escalation_decision = Some ''ESCALATE'',
                     md_ml_probability = Some 1, md_timestamp = Some ''2024-01-15T10:30:00'',
                     md_symptoms = Some (JsonList [''Death''])\<rparr>\<rparr>,
                 \<lparr>entry_id = ''RPT-2'', entry_embedding = [0], entry_document = ''second'',
                  entry_metadata =
                    \<lparr>md_report_id = Some ''RPT-2'', md_drugname = Some ''aspirin'',
                     md_risk_level = Some ''HIGH'', md_escalation_decision = Some ''ESCALATE'',
                     md_ml_probability = Some (8 / 10), md_timestamp = Some ''2024-01-16T09:00:00'',
                     md_symptoms = Some (JsonList [''Stroke''])\<rparr>\<rparr>],
         distance = (\<lambda>x y. 0)\<rparr>)))
   \<and> [] \<notin> se_report_id ` set
       (search_similar_events
        \<lparr>embedding_model = Some (\<lambda>t. [0]),
         collection =
           Some [\<lparr>entry_id = ''RPT-1'', entry_embedding = [0], entry_document = ''first'',
                  entry_metadata =
                    \<lparr>md_report_id = Some ''RPT-1'', md_drugname = Some ''aspirin'',
                     md_risk_level = Some ''CRITICAL'', md_escalation_decision = Some ''ESCALATE'',
                     md_ml_probability = Some 1, md_timestamp = Some ''2024-01-15T10:30:00'',
                     md_symptoms = Some (JsonList [''Death''])\<rparr>\<rparr>,
                 \<lparr>entry_id = ''RPT-2'', entry_embedding = [0], entry_document = ''second'',
                  entry_metadata =
                    \<lparr>md_report_id = Some ''RPT-2'', md_drugname = Some ''aspirin'',
                     md_risk_level = Some ''HIGH'', md_escalation_decision = Some ''ESCALATE'',
                     md_ml_probability = Some (8 / 10), md_timestamp = Some ''2024-01-16T09:00:00'',
                     md_symptoms = Some (JsonList [''Stroke''])\<rparr>\<rparr>],
         distance = (\<lambda>x y. 0)\<rparr>
        ''aspirin'' ''patient died'' (Some [''Death'']) (Some ''CRITICAL'') (Some []) 5 True)"
proof -
  let ?vs = "\<lparr>embedding_model = Some (\<lambda>t::string. [0::real]),
         collection =
           Some [\<lparr>entry_id = ''RPT-1'', entry_embedding = [0], entry_document = ''first'',
                  entry_metadata =
                    \<lparr>md_report_id = Some ''RPT-1'', md_drugname = Some ''aspirin'',
                     md_risk_level = Some ''CRITICAL'', md_escalation_decision = Some ''ESCALATE'',
                     md_ml_probability = Some 1, md_timestamp = Some ''2024-01-15T10:30:00'',
                     md_symptoms = Some (JsonList [''Death''])\<rparr>\<rparr>,
                 \<lparr>entry_id = ''RPT-2'', entry_embedding = [0], entry_document = ''second'',
                  entry_metadata =
                    \<lparr>md_report_id = Some ''RPT-2'', md_drugname = Some ''aspirin'',
                     md_risk_level = Some ''HIGH'', md_escalation_decision = Some ''ESCALATE'',
                     md_ml_probability = Some (8 / 10), md_timestamp = Some ''2024-01-16T09:00:00'',
                     md_symptoms = Some (JsonList [''Stroke''])\<rparr>\<rparr>],
         distance = (\<lambda>x y. 0::real)\<rparr>"
  have ne: "''RPT-1'' \<noteq> [] \<or> (\<forall>es. collection ?vs = Some es \<longrightarrow> [] \<notin> entry_id ` set es)"
    by simp
  have held: "[] \<notin> set (map entry_id (the (collection ?vs)))"
    by simp
  have ids: "[] \<noteq> ([]::string)
             \<or> (\<forall>es. collection ?vs = Some es \<longrightarrow> [] \<notin> entry_id ` set es)"
    by simp
  have c1: "''RPT-1'' \<noteq> []" by simp
  have c2: "''RPT-1'' \<notin> se_report_id ` set
       (search_similar_events ?vs
        ''aspirin'' ''patient died'' (Some [''Death'']) (Some ''CRITICAL'') (Some ''RPT-1'') 5 True)"
    using similarity_query_excludes_current_report [OF ne] by (rule conjunct1)
  have c5: "[] \<notin> se_report_id ` set
       (search_similar_events ?vs
        ''aspirin'' ''patient died'' (Some [''Death'']) (Some ''CRITICAL'') (Some []) 5 True)"
    using similarity_query_excludes_current_report [OF ids] by (rule conjunct1)
  show ?thesis
    using c1 c2 two_entry_search held c5 by (intro conjI)
qed

section \<open>Properties of the audit log\<close>

text \<open>
  On the table that \<open>init_database\<close> creates in an empty database file, the INSERT of
  \<open>log_processing\<close> never succeeds: the schema gives \<open>timestamp\<close> no DEFAULT and the INSERT
  gives it no value. \<open>log_processing\<close> returns \<open>False\<close> and stores nothing.
\<close>

lemma log_processing_on_created_schema:
  "log_processing (init_database None) vs report_id drugname adverse_event ml_prediction ents
     escalation_result processing_time_ms now
   = (False, init_database None, vs)"
  by (simp add: log_processing_def insert_audit_log_def)

lemma find_append_new:
  "find P xs = None \<Longrightarrow> P x \<Longrightarrow> find P (xs @ [x]) = Some x"
  by (induction xs) (auto split: if_splits)

text \<open>
  C1. For every case whose append through \<open>log_processing\<close> succeeds, the report id
  being new to the table (report ids are generated once per case), the lookup by the same
  report id that follows returns a record whose fields match what was passed: the report
  id, drug name and event text; \<open>prediction\<close> (or the empty string) and
  \<open>serious_probability\<close> (or 0) of the ML prediction; the extracted drug (or the empty
  string) and symptoms (or the empty list); the decision as ESCALATE or NO\_ESCALATE, the
  risk level, final score, triggered keywords and explanation of the escalation result;
  and the processing time.
\<close>

theorem audit_append_then_lookup:
  assumes ok: "fst (log_processing db vs rid d a mp e er pt now) = True"
    and fresh: "get_audit_by_report_id db rid = Inr None"
  shows "\<exists>r. get_audit_by_report_id (fst (snd (log_processing db vs rid d a mp e er pt now))) rid
               = Inr (Some r)
           \<and> col_report_id r = rid
           \<and> col_drugname r = d
           \<and> col_adverse_event r = a
           \<and> col_ml_prediction r = Some (case prediction mp of None \<Rightarrow> [] | Some p \<Rightarrow> p)
           \<and> col_ml_probability r = Some (case serious_probability mp of None \<Rightarrow> 0 | Some p \<Rightarrow> p)
           \<and> col_extracted_drug r = Some (case drug e of None \<Rightarrow> [] | Some x \<Rightarrow> x)
           \<and> col_extracted_symptoms r = Some (case symptoms e of None \<Rightarrow> [] | Some ss \<Rightarrow> ss)
           \<and> col_escalation_decision r
               = Some (if should_escalate er then ''ESCALATE'' else ''NO_ESCALATE'')
           \<and> col_risk_level r = Some (risk_level er)
           \<and> col_final_score r = Some (final_score er)
           \<and> col_triggered_keywords r = Some (triggered_keywords er)
           \<and> col_explanation r = Some (explanation er)
           \<and> col_processing_time_ms r = Some pt"
proof -
  let ?v = "audit_values rid d a mp e er pt"
  obtain t where db: "db = Some t"
    using fresh by (cases db) (simp_all add: get_audit_by_report_id_def select_by_report_id_def)
  obtain ts where ts: "timestamp_default t = Some ts"
    using ok db by (cases "timestamp_default t") (simp_all add: log_processing_def insert_audit_log_def)
  let ?row = "audit_columns.extend ?v (audit_row.fields (Suc (table_seq t)) ts)"
  let ?db' = "Some (t\<lparr>table_rows := table_rows t @ [?row], table_seq := Suc (table_seq t)\<rparr>)"
  have ins: "insert_audit_log ?v db = Inr ?db'"
    using db ts by (simp add: insert_audit_log_def)
  have db': "fst (snd (log_processing db vs rid d a mp e er pt now)) = ?db'"
    using ins by (simp add: log_processing_def split: prod.splits)
  have none: "find (\<lambda>r. col_report_id r = rid) (table_rows t) = None"
    using fresh db by (simp add: get_audit_by_report_id_def select_by_report_id_def)
  have rid: "col_report_id ?row = rid"
    by (simp add: audit_values_def audit_columns.defs audit_row.defs)
  have "find (\<lambda>r. col_report_id r = rid) (table_rows t @ [?row]) = Some ?row"
    using none rid by (rule find_append_new)
  then have get: "get_audit_by_report_id ?db' rid = Inr (Some ?row)"
    by (simp add: get_audit_by_report_id_def select_by_report_id_def)
  have cols: "col_report_id ?row = rid
           \<and> col_drugname ?row = d
           \<and> col_adverse_event ?row = a
           \<and> col_ml_prediction ?row = Some (case prediction mp of None \<Rightarrow> [] | Some p \<Rightarrow> p)
           \<and> col_ml_probability ?row = Some (case serious_probability mp of None \<Rightarrow> 0 | Some p \<Rightarrow> p)
           \<and> col_extracted_drug ?row = Some (case drug e of None \<Rightarrow> [] | Some x \<Rightarrow> x)
           \<and> col_extracted_symptoms ?row = Some (case symptoms e of None \<Rightarrow> [] | Some ss \<Rightarrow> ss)
           \<and> col_escalation_decision ?row
               = Some (if should_escalate er then ''ESCALATE'' else ''NO_ESCALATE'')
           \<and> col_risk_level ?row = Some (risk_level er)
           \<and> col_final_score ?row = Some (final_score er)
           \<and> col_triggered_keywords ?row = Some (triggered_keywords er)
           \<and> col_explanation ?row = Some (explanation er)
           \<and> col_processing_time_ms ?row = Some pt"
    by (simp add: audit_values_def audit_columns.defs audit_row.defs decision_text_def)
  show ?thesis
    unfolding db' using get cols by blast
qed

theorem audit_append_then_lookup_witness:
  "fst (log_processing
          (Some \<lparr>timestamp_default = Some ''2024-01-15 10:31:00'', table_rows = [], table_seq = 0\<rparr>)
          \<lparr>embedding_model = None, collection = None, distance = (\<lambda>x y. 0)\<rparr>
          ''RPT-1'' ''ibuprofen'' ''patient died''
          \<lparr>prediction = Some ''Serious'', serious_probability = Some 1,
           non_serious_probability = Some 0, confidence = Some 1,
           reason = Some ''Rule-based override: high-risk keyword detected''\<rparr>
          \<lparr>drug = Some ''ibuprofen'', symptoms = Some [''Death''],
           extraction_method = Some ''regex''\<rparr>
          \<lparr>should_escalate = True, final_score = 1, ml_probability = 1, keyword_score = 1,
           triggered_keywords = [''died''], explanation = [], risk_level = ''CRITICAL''\<rparr>
          15 ''2024-01-15T10:31:00'') = True
   \<and> get_audit_by_report_id
         (Some \<lparr>timestamp_default = Some ''2024-01-15 10:31:00'', table_rows = [], table_seq = 0\<rparr>)
         ''RPT-1'' = Inr None
   \<and> get_audit_by_report_id
        (fst (snd (log_processing
          (Some \<lparr>timestamp_default = Some ''2024-01-15 10:31:00'', table_rows = [], table_seq = 0\<rparr>)
          \<lparr>embedding_model = None, collection = None, distance = (\<lambda>x y. 0)\<rparr>
          ''RPT-1'' ''ibuprofen'' ''patient died''
          \<lparr>prediction = Some ''Serious'', serious_probability = Some 1,
           non_serious_probability = Some 0, confidence = Some 1,
           reason = Some ''Rule-based override: high-risk keyword detected''\<rparr>
          \<lparr>drug = Some ''ibuprofen'', symptoms = Some [''Death''],
           extraction_method = Some ''regex''\<rparr>
          \<lparr>should_escalate = True, final_score = 1, ml_probability = 1, keyword_score = 1,
           triggered_keywords = [''died''], explanation = [], risk_level = ''CRITICAL''\<rparr>
          15 ''2024-01-15T10:31:00''))) ''RPT-1''
      = Inr (Some \<lparr>col_report_id = ''RPT-1'', col_drugname = ''ibuprofen'',
                     col_adverse_event = ''patient died'',
                     col_ml_prediction = Some ''Serious'', col_ml_probability = Some 1,
                     col_extracted_drug = Some ''ibuprofen'',
                     col_extracted_symptoms = Some [''Death''],
                     col_escalation_decision = Some ''ESCALATE'',
                     col_risk_level = Some ''CRITICAL'', col_final_score = Some 1,
                     col_triggered_keywords = Some [''died''], col_explanation = Some [],
                     col_processing_time_ms = Some 15,
                     col_id = 1, col_timestamp = ''2024-01-15 10:31:00''\<rparr>)"
proof -
  let ?db = "Some \<lparr>timestamp_default = Some ''2024-01-15 10:31:00'', table_rows = [], table_seq = 0\<rparr>"
  let ?vs = "\<lparr>embedding_model = None, collection = None, distance = (\<lambda>x y. 0::real)\<rparr>"
  let ?mp = "\<lparr>prediction = Some ''Serious'', serious_probability = Some 1,
           non_serious_probability = Some 0, confidence = Some 1,
           reason = Some ''Rule-based override: high-risk keyword detected''\<rparr>"
  let ?e = "\<lparr>drug = Some ''ibuprofen'', symptoms = Some [''Death''],
           extraction_method = Some ''regex''\<rparr>"
  let ?er = "\<lparr>should_escalate = True, final_score = 1, ml_probability = 1, keyword_score = 1,
           triggered_keywords = [''died''], explanation = [], risk_level = ''CRITICAL''\<rparr>"
  have ok: "fst (log_processing ?db ?vs ''RPT-1'' ''ibuprofen'' ''patient died'' ?mp ?e ?er 15
                   ''2024-01-15T10:31:00'') = True"
    by (simp add: log_processing_def insert_audit_log_def index_audit_event_def Let_def)
  have fresh: "get_audit_by_report_id ?db ''RPT-1'' = Inr None"
    by (simp add: get_audit_by_report_id_def select_by_report_id_def)
  have val: "get_audit_by_report_id
        (fst (snd (log_processing ?db ?vs ''RPT-1'' ''ibuprofen'' ''patient died'' ?mp ?e ?er 15
                   ''2024-01-15T10:31:00''))) ''RPT-1''
      = Inr (Some \<lparr>col_report_id = ''RPT-1'', col_drugname = ''ibuprofen'',
                     col_adverse_event = ''patient died'',
                     col_ml_prediction = Some ''Serious'', col_ml_probability = Some 1,
                     col_extracted_drug = Some ''ibuprofen'',
                     col_extracted_symptoms = Some [''Death''],
                     col_escalation_decision = Some ''ESCALATE'',
                     col_risk_level = Some ''CRITICAL'', col_final_score = Some 1,
                     col_triggered_keywords = Some [''died''], col_explanation = Some [],
                     col_processing_time_ms = Some 15,
                     col_id = 1, col_timestamp = ''2024-01-15 10:31:00''\<rparr>)"
    by (simp add: log_processing_def insert_audit_log_def index_audit_event_def Let_def
        get_audit_by_report_id_def select_by_report_id_def audit_values_def decision_text_def
        audit_columns.defs audit_row.defs)
  show ?thesis
    using audit_append_then_lookup [OF ok fresh] ok fresh val by simp
qed

text \<open>
  C5. Whenever the insert into the audit table succeeds, \<open>log_processing\<close> returns \<open>True\<close>
  and leaves the database as the insert made it, for every state of the vector store;
  in particular when the embedding model or the Chroma collection is unavailable, where
  \<open>index_audit_event\<close> itself reports \<open>False\<close> and changes nothing.
\<close>

theorem index_failure_does_not_fail_log_processing:
  assumes "insert_audit_log (audit_values rid d a mp e er pt) db = Inr db'"
  shows "fst (log_processing db vs rid d a mp e er pt now) = True
       \<and> fst (snd (log_processing db vs rid d a mp e er pt now)) = db'
       \<and> (embedding_model vs = None \<or> collection vs = None \<longrightarrow>
            index_audit_event vs rid d a (risk_level er) (decision_text (should_escalate er))
              (Some (case symptoms e of None \<Rightarrow> [] | Some ss \<Rightarrow> ss))
              (case serious_probability mp of None \<Rightarrow> 0 | Some p \<Rightarrow> p) (Some now) now
            = (False, vs))"
  using assms
  by (auto simp: log_processing_def index_audit_event_def Let_def split: prod.splits option.splits)

theorem index_failure_does_not_fail_log_processing_witness:
  "insert_audit_log
     (audit_values ''RPT-2'' ''warfarin'' ''gi bleed''
        \<lparr>prediction = Some ''Serious'', serious_probability = Some 1,
         non_serious_probability = Some 0, confidence = Some 1,
         reason = Some ''Rule-based override: high-risk keyword detected''\<rparr>
        \<lparr>drug = Some ''warfarin'', symptoms = Some [''Bleeding''],
         extraction_method = Some ''regex''\<rparr>
        \<lparr>should_escalate = True, final_score = 7 / 10, ml_probability = 1, keyword_score = 0,
         triggered_keywords = [], explanation = [], risk_level = ''HIGH''\<rparr> 20)
     (Some \<lparr>timestamp_default = Some ''2024-02-01 08:00:00'', table_rows = [], table_seq = 0\<rparr>)
   = Inr (Some \<lparr>timestamp_default = Some ''2024-02-01 08:00:00'',
                table_rows =
                  [\<lparr>col_report_id = ''RPT-2'', col_drugname = ''warfarin'',
                    col_adverse_event = ''gi bleed'',
                    col_ml_prediction = Some ''Serious'', col_ml_probability = Some 1,
                    col_extracted_drug = Some ''warfarin'',
                    col_extracted_symptoms = Some [''Bleeding''],
                    col_escalation_decision = Some ''ESCALATE'',
                    col_risk_level = Some ''HIGH'', col_final_score = Some (7 / 10),
                    col_triggered_keywords = Some [], col_explanation = Some [],
                    col_processing_time_ms = Some 20,
                    col_id = 1, col_timestamp = ''2024-02-01 08:00:00''\<rparr>],
                table_seq = 1\<rparr>)
   \<and> collection \<lparr>embedding_model = Some (\<lambda>t. [0]), collection = None,
                 distance = (\<lambda>x y. 0)\<rparr> = None
   \<and> fst (index_audit_event
            \<lparr>embedding_model = Some (\<lambda>t. [0]), collection = None, distance = (\<lambda>x y. 0)\<rparr>
            ''RPT-2'' ''warfarin'' ''gi bleed'' ''HIGH'' ''ESCALATE'' (Some [''Bleeding'']) 1
            (Some ''2024-02-01T08:00:00'') ''2024-02-01T08:00:00'') = False
   \<and> fst (log_processing
            (Some \<lparr>timestamp_default = Some ''2024-02-01 08:00:00'', table_rows = [], table_seq = 0\<rparr>)
            \<lparr>embedding_model = Some (\<lambda>t. [0]), collection = None, distance = (\<lambda>x y. 0)\<rparr>
            ''RPT-2'' ''warfarin'' ''gi bleed''
            \<lparr>prediction = Some ''Serious'', serious_probability = Some 1,
             non_serious_probability = Some 0, confidence = Some 1,
             reason = Some ''Rule-based override: high-risk keyword detected''\<rparr>
            \<lparr>drug = Some ''warfarin'', symptoms = Some [''Bleeding''],
             extraction_method = Some ''regex''\<rparr>
            \<lparr>should_escalate = True, final_score = 7 / 10, ml_probability = 1, keyword_score = 0,
             triggered_keywords = [], explanation = [], risk_level = ''HIGH''\<rparr>
            20 ''2024-02-01T08:00:00'') = True"
proof -
  let ?db = "Some \<lparr>timestamp_default = Some ''2024-02-01 08:00:00'', table_rows = [], table_seq = 0\<rparr>"
  let ?vs = "\<lparr>embedding_model = Some (\<lambda>t::string. [0::real]), collection = None,
              distance = (\<lambda>x y. 0::real)\<rparr>"
  let ?mp = "\<lparr>prediction = Some ''Serious'', serious_probability = Some 1,
         non_serious_probability = Some 0, confidence = Some 1,
         reason = Some ''Rule-based override: high-risk keyword detected''\<rparr>"
  let ?e = "\<lparr>drug = Some ''warfarin'', symptoms = Some [''Bleeding''],
         extraction_method = Some ''regex''\<rparr>"
  let ?er = "\<lparr>should_escalate = True, final_score = 7 / 10, ml_probability = 1, keyword_score = 0,
         triggered_keywords = [], explanation = [], risk_level = ''HIGH''\<rparr>"
  let ?db' = "Some \<lparr>timestamp_default = Some ''2024-02-01 08:00:00'',
                table_rows =
                  [\<lparr>col_report_id = ''RPT-2'', col_drugname = ''warfarin'',
                    col_adverse_event = ''gi bleed'',
                    col_ml_prediction = Some ''Serious'', col_ml_probability = Some 1,
                    col_extracted_drug = Some ''warfarin'',
                    col_extracted_symptoms = Some [''Bleeding''],
                    col_escalation_decision = Some ''ESCALATE'',
                    col_risk_level = Some ''HIGH'', col_final_score = Some (7 / 10),
                    col_triggered_keywords = Some [], col_explanation = Some [],
                    col_processing_time_ms = Some 20,
                    col_id = 1, col_timestamp = ''2024-02-01 08:00:00''\<rparr>],
                table_seq = 1\<rparr>"
  have ins: "insert_audit_log (audit_values ''RPT-2'' ''warfarin'' ''gi bleed'' ?mp ?e ?er 20) ?db
               = Inr ?db'"
    by (simp add: insert_audit_log_def audit_values_def decision_text_def
        audit_columns.defs audit_row.defs)
  have idx: "fst (index_audit_event ?vs ''RPT-2'' ''warfarin'' ''gi bleed'' ''HIGH'' ''ESCALATE''
                    (Some [''Bleeding'']) 1 (Some ''2024-02-01T08:00:00'')
                    ''2024-02-01T08:00:00'') = False"
    by (simp add: index_audit_event_def Let_def)
  show ?thesis
    using index_failure_does_not_fail_log_processing [OF ins, of ?vs "''2024-02-01T08:00:00''"]
      ins idx
    by simp
qed

end
